theory Spec2Isabelle
  imports Main "HOL-Library.Word"
begin

section \<open>Python values, exceptions and library functions\<close>

text \<open>
  The two handlers of the repository (\<^verbatim>\<open>src/lambda/booking_handler.py\<close> and
  \<^verbatim>\<open>src/lambda/notification_handler.py\<close>) work on values decoded from JSON: the
  invocation event, the request body, the queue records. Such a value is \<open>None\<close>, a
  boolean, an integer, a float (kept as its 64-bit pattern, never computed with), a string,
  a list or a dictionary with string keys. A dictionary is an association list in
  insertion order, looked up with \<open>map_of\<close>.
\<close>

datatype pyval =
    PNone
  | PBool bool
  | PInt int
  | PFloat "64 word"
  | PStr string
  | PList "pyval list"
  | PDict "(string \<times> pyval) list"

type_synonym pydict = "(string \<times> pyval) list"

text \<open>
  The exceptions the handlers can meet. \<open>ServiceError\<close> stands for whatever a call to the
  store or to the queue raises (a botocore error), with a description.
\<close>

datatype exn =
    JSONDecodeError
  | KeyError string
  | TypeError
  | AttributeError
  | ServiceError string

text \<open>
  Library functions the source calls and does not define are parameters of the model:
  \<^item> \<open>json_loads\<close> is \<^verbatim>\<open>json.loads\<close> on a string, \<open>None\<close> where it raises
    \<^verbatim>\<open>JSONDecodeError\<close>;
  \<^item> \<open>json_dumps\<close> is \<^verbatim>\<open>json.dumps\<close>, and \<open>json_dumps_DecimalEncoder\<close> is
    \<^verbatim>\<open>json.dumps(..., cls=DecimalEncoder)\<close>;
  \<^item> \<open>str_exn\<close> is \<^verbatim>\<open>str(e)\<close> of an exception;
  \<^item> \<open>str_other\<close> is \<^verbatim>\<open>str(v)\<close> of a float, a list or a dictionary.
\<close>

record pylib =
  json_loads :: "string \<Rightarrow> pyval option"
  json_dumps :: "pyval \<Rightarrow> string"
  json_dumps_DecimalEncoder :: "pyval \<Rightarrow> string"
  str_exn :: "exn \<Rightarrow> string"
  str_other :: "pyval \<Rightarrow> string"

text \<open>Truth value of a Python object, as \<^verbatim>\<open>if v:\<close> and \<^verbatim>\<open>v or d\<close> test it.\<close>

fun truthy :: "pyval \<Rightarrow> bool" where
  "truthy PNone = False"
| "truthy (PBool b) = b"
| "truthy (PInt i) = (i \<noteq> 0)"
| "truthy (PFloat w) = (w \<noteq> 0 \<and> w \<noteq> 0x8000000000000000)"
| "truthy (PStr s) = (s \<noteq> [])"
| "truthy (PList xs) = (xs \<noteq> [])"
| "truthy (PDict kvs) = (kvs \<noteq> [])"

text \<open>\<^verbatim>\<open>needle in hay\<close> on two strings: \<open>needle\<close> occurs as a contiguous part.\<close>

fun str_contains :: "string \<Rightarrow> string \<Rightarrow> bool" where
  "str_contains needle [] = (needle = [])"
| "str_contains needle (c # cs) =
     (take (length needle) (c # cs) = needle \<or> str_contains needle cs)"

text \<open>
  \<^verbatim>\<open>key in v\<close> for a string \<open>key\<close>: key membership on a dictionary, element
  membership on a list, containment on a string, \<^verbatim>\<open>TypeError\<close> on anything else.
\<close>

fun py_contains :: "pyval \<Rightarrow> string \<Rightarrow> exn + bool" where
  "py_contains (PDict kvs) key = Inr (map_of kvs key \<noteq> None)"
| "py_contains (PList xs) key = Inr (PStr key \<in> set xs)"
| "py_contains (PStr s) key = Inr (str_contains key s)"
| "py_contains _ key = Inl TypeError"

text \<open>
  \<^verbatim>\<open>v[key]\<close> for a string \<open>key\<close>: the value or \<^verbatim>\<open>KeyError\<close> on a dictionary,
  \<^verbatim>\<open>TypeError\<close> on anything else (a list and a string want integer indices, the other
  values are not subscriptable).
\<close>

fun py_getitem :: "pyval \<Rightarrow> string \<Rightarrow> exn + pyval" where
  "py_getitem (PDict kvs) key =
     (case map_of kvs key of None \<Rightarrow> Inl (KeyError key) | Some v \<Rightarrow> Inr v)"
| "py_getitem _ key = Inl TypeError"

text \<open>
  \<^verbatim>\<open>v.get(key, default)\<close>: only a dictionary has the method, anything else raises
  \<^verbatim>\<open>AttributeError\<close>.
\<close>

fun dict_get :: "pyval \<Rightarrow> string \<Rightarrow> pyval \<Rightarrow> exn + pyval" where
  "dict_get (PDict kvs) key dflt =
     Inr (case map_of kvs key of None \<Rightarrow> dflt | Some v \<Rightarrow> v)"
| "dict_get _ key dflt = Inl AttributeError"

text \<open>
  \<^verbatim>\<open>json.loads(v)\<close>: a string is parsed, any other value of this model raises
  \<^verbatim>\<open>TypeError\<close> (so does \<open>None\<close>).
\<close>

fun py_json_loads :: "pylib \<Rightarrow> pyval \<Rightarrow> exn + pyval" where
  "py_json_loads lib (PStr s) =
     (case json_loads lib s of None \<Rightarrow> Inl JSONDecodeError | Some v \<Rightarrow> Inr v)"
| "py_json_loads lib _ = Inl TypeError"

text \<open>\<^verbatim>\<open>for x in v\<close>: the elements of a list, the characters of a string, the keys of a
  dictionary; anything else is not iterable.\<close>

fun py_iter :: "pyval \<Rightarrow> exn + pyval list" where
  "py_iter (PList xs) = Inr xs"
| "py_iter (PStr s) = Inr (map (\<lambda>c. PStr [c]) s)"
| "py_iter (PDict kvs) = Inr (map (\<lambda>kv. PStr (fst kv)) kvs)"
| "py_iter _ = Inl TypeError"

text \<open>Decimal notation of a natural number and of an integer (\<^verbatim>\<open>str(n)\<close>).\<close>

definition digit_char :: "nat \<Rightarrow> char" where
  "digit_char d = ''0123456789'' ! d"

function str_nat :: "nat \<Rightarrow> string" where
  "str_nat n = (if n < 10 then [digit_char n] else str_nat (n div 10) @ [digit_char (n mod 10)])"
  by pat_completeness auto
termination
  by (relation "measure (\<lambda>n. n)") auto

declare str_nat.simps [simp del]

definition str_int :: "int \<Rightarrow> string" where
  "str_int i = (if i < 0 then CHR ''-'' # str_nat (nat (- i)) else str_nat (nat i))"

text \<open>What an f-string puts in place of \<^verbatim>\<open>{v}\<close>, that is \<^verbatim>\<open>str(v)\<close>.\<close>

fun py_str :: "pylib \<Rightarrow> pyval \<Rightarrow> string" where
  "py_str lib (PStr s) = s"
| "py_str lib PNone = ''None''"
| "py_str lib (PBool b) = (if b then ''True'' else ''False'')"
| "py_str lib (PInt i) = str_int i"
| "py_str lib v = str_other lib v"

section \<open>The store and the queue\<close>

text \<open>
  Modelled from the spec: the booking store is an external DynamoDB table whose key schema
  is declared outside the two source files. The specification gives \<open>event_id\<close> as the
  partition key and \<open>booking_id\<close> as the sort key; the query in \<^verbatim>\<open>get_bookings\<close>
  confirms the former. The table is the list of its items; a write replaces the item
  with the same primary key, if any; a query returns the items of one partition, a scan
  returns all of them. Response size limits and pagination of the service are not modelled.
\<close>

definition same_key :: "pydict \<Rightarrow> pydict \<Rightarrow> bool" where
  "same_key a b =
     (map_of a ''event_id'' = map_of b ''event_id'' \<and>
      map_of a ''booking_id'' = map_of b ''booking_id'')"

definition table_put_item :: "pydict \<Rightarrow> pydict list \<Rightarrow> pydict list" where
  "table_put_item item tbl = filter (\<lambda>it. \<not> same_key it item) tbl @ [item]"

definition table_query :: "pydict list \<Rightarrow> pyval \<Rightarrow> pydict list" where
  "table_query tbl event_id = filter (\<lambda>it. map_of it ''event_id'' = Some event_id) tbl"

definition table_scan :: "pydict list \<Rightarrow> pydict list" where
  "table_scan tbl = tbl"

text \<open>
  The state the Booking Service acts on: the items of the table and the message bodies
  published to the queue, oldest first.
\<close>

record world =
  table :: "pydict list"
  queue :: "string list"

text \<open>
  What one invocation takes from its environment: the random identifier
  \<^verbatim>\<open>uuid.uuid4()\<close> as a string, the clock reading
  \<^verbatim>\<open>datetime.utcnow().isoformat()\<close>, and for each call to the store or the queue
  whether it raises (\<open>Some e\<close>) or returns (\<open>None\<close>). A call that raises leaves the
  store and the queue as they were.
\<close>

record env =
  uuid4 :: string
  utcnow :: string
  put_item_fault :: "exn option"
  send_message_fault :: "exn option"
  query_fault :: "exn option"
  scan_fault :: "exn option"

section \<open>Booking Service\<close>

text \<open>
  The functions of \<^verbatim>\<open>booking_handler.py\<close>. An event is the dictionary the runtime hands
  to the handler. The \<^verbatim>\<open>print\<close> calls of the file write to the log only and are left
  out; the class \<^verbatim>\<open>DecimalEncoder\<close> is part of the parameter
  \<open>json_dumps_DecimalEncoder\<close>.
\<close>

record response =
  statusCode :: nat
  headers :: "(string \<times> string) list"
  body :: string

text \<open>The envelope every return statement of \<^verbatim>\<open>booking_handler.py\<close> writes out.\<close>

definition json_response :: "nat \<Rightarrow> string \<Rightarrow> response" where
  "json_response code text =
     \<lparr>statusCode = code,
      headers = [(''Content-Type'', ''application/json''),
                 (''Access-Control-Allow-Origin'', ''*'')],
      body = text\<rparr>"

definition required_fields :: "string list" where
  "required_fields = [''event_id'', ''user_name'', ''user_email'']"

text \<open>
  The validation loop of \<^verbatim>\<open>create_booking\<close>: \<open>Inr (Some field)\<close> is the early return
  for the first \<open>field\<close> that is not in the body, \<open>Inr None\<close> is the loop running to its
  end, \<open>Inl e\<close> is the membership test raising.
\<close>

fun check_required :: "pyval \<Rightarrow> string list \<Rightarrow> exn + string option" where
  "check_required bdy [] = Inr None"
| "check_required bdy (field # rest) =
     (case py_contains bdy field of
        Inl e \<Rightarrow> Inl e
      | Inr present \<Rightarrow> if present then check_required bdy rest else Inr (Some field))"

text \<open>The exceptions the first \<^verbatim>\<open>try\<close> of \<^verbatim>\<open>create_booking\<close> catches.\<close>

fun invalid_body_exn :: "exn \<Rightarrow> bool" where
  "invalid_body_exn JSONDecodeError = True"
| "invalid_body_exn (KeyError k) = True"
| "invalid_body_exn _ = False"

text \<open>\<^verbatim>\<open>json.loads(event['body'])\<close>.\<close>

definition parse_body :: "pylib \<Rightarrow> pydict \<Rightarrow> exn + pyval" where
  "parse_body lib event =
     (case map_of event ''body'' of
        None \<Rightarrow> Inl (KeyError ''body'')
      | Some v \<Rightarrow> py_json_loads lib v)"

definition booking_item :: "env \<Rightarrow> pyval \<Rightarrow> pyval \<Rightarrow> pyval \<Rightarrow> pydict" where
  "booking_item env event_id user_name user_email =
     [(''event_id'', event_id),
      (''booking_id'', PStr (''booking-'' @ uuid4 env)),
      (''user_name'', user_name),
      (''user_email'', user_email),
      (''booking_status'', PStr ''confirmed''),
      (''created_at'', PStr (utcnow env))]"

definition notification_message :: "env \<Rightarrow> pyval \<Rightarrow> pyval \<Rightarrow> pyval \<Rightarrow> pydict" where
  "notification_message env event_id user_name user_email =
     [(''booking_id'', PStr (''booking-'' @ uuid4 env)),
      (''event_id'', event_id),
      (''user_email'', user_email),
      (''user_name'', user_name),
      (''action'', PStr ''booking_created''),
      (''timestamp'', PStr (utcnow env))]"

text \<open>
  The second half of \<^verbatim>\<open>create_booking\<close>, from \<^verbatim>\<open>table.put_item\<close> on: the write,
  then the publication, then the 201 response. The write is not undone when the
  publication raises.
\<close>

definition store_and_notify ::
  "pylib \<Rightarrow> env \<Rightarrow> pyval \<Rightarrow> pyval \<Rightarrow> pyval \<Rightarrow> world \<Rightarrow> (exn + response) \<times> world" where
  "store_and_notify lib env event_id user_name user_email w =
     (case put_item_fault env of
        Some e \<Rightarrow> (Inl e, w)
      | None \<Rightarrow>
          (let item = booking_item env event_id user_name user_email;
               w1 = w\<lparr>table := table_put_item item (table w)\<rparr>
           in case send_message_fault env of
                Some e \<Rightarrow> (Inl e, w1)
              | None \<Rightarrow>
                  (let msg = json_dumps lib
                               (PDict (notification_message env event_id user_name user_email));
                       w2 = w1\<lparr>queue := queue w1 @ [msg]\<rparr>
                   in (Inr (json_response 201
                              (json_dumps_DecimalEncoder lib
                                 (PDict [(''message'', PStr ''Booking created successfully''),
                                         (''booking'', PDict item)]))),
                       w2))))"

definition create_booking ::
  "pylib \<Rightarrow> env \<Rightarrow> pydict \<Rightarrow> world \<Rightarrow> (exn + response) \<times> world" where
  "create_booking lib env event w =
     (case parse_body lib event of
        Inl e \<Rightarrow>
          if invalid_body_exn e
          then (Inr (json_response 400
                       (json_dumps lib (PDict [(''error'', PStr ''Invalid request body'')]))), w)
          else (Inl e, w)
      | Inr bdy \<Rightarrow>
          (case check_required bdy required_fields of
             Inl e \<Rightarrow> (Inl e, w)
           | Inr (Some field) \<Rightarrow>
               (Inr (json_response 400
                       (json_dumps lib
                          (PDict [(''error'', PStr (''Missing required field: '' @ field))]))), w)
           | Inr None \<Rightarrow>
               (case py_getitem bdy ''event_id'' of
                  Inl e \<Rightarrow> (Inl e, w)
                | Inr event_id \<Rightarrow>
                    (case py_getitem bdy ''user_name'' of
                       Inl e \<Rightarrow> (Inl e, w)
                     | Inr user_name \<Rightarrow>
                         (case py_getitem bdy ''user_email'' of
                            Inl e \<Rightarrow> (Inl e, w)
                          | Inr user_email \<Rightarrow>
                              store_and_notify lib env event_id user_name user_email w)))))"

text \<open>\<^verbatim>\<open>event.get('queryStringParameters', {}) or {}\<close>.\<close>

definition query_params :: "pydict \<Rightarrow> pyval" where
  "query_params event =
     (let v = (case map_of event ''queryStringParameters'' of None \<Rightarrow> PDict [] | Some v \<Rightarrow> v)
      in if truthy v then v else PDict [])"

definition get_bookings ::
  "pylib \<Rightarrow> env \<Rightarrow> pydict \<Rightarrow> world \<Rightarrow> (exn + response) \<times> world" where
  "get_bookings lib env event w =
     (case dict_get (query_params event) ''event_id'' PNone of
        Inl e \<Rightarrow> (Inl e, w)
      | Inr event_id \<Rightarrow>
          if truthy event_id
          then (case query_fault env of
                  Some e \<Rightarrow> (Inl e, w)
                | None \<Rightarrow>
                    (let bookings = table_query (table w) event_id;
                         message = ''Found '' @ str_nat (length bookings)
                                   @ '' booking(s) for event '' @ py_str lib event_id
                     in (Inr (json_response 200
                                (json_dumps_DecimalEncoder lib
                                   (PDict [(''message'', PStr message),
                                           (''bookings'', PList (map PDict bookings))]))), w)))
          else (case scan_fault env of
                  Some e \<Rightarrow> (Inl e, w)
                | None \<Rightarrow>
                    (let bookings = table_scan (table w);
                         message = ''Found '' @ str_nat (length bookings) @ '' total booking(s)''
                     in (Inr (json_response 200
                                (json_dumps_DecimalEncoder lib
                                   (PDict [(''message'', PStr message),
                                           (''bookings'', PList (map PDict bookings))]))), w))))"

text \<open>
  \<^verbatim>\<open>lambda_handler\<close> of \<^verbatim>\<open>booking_handler.py\<close>: dispatch on the method, and the
  \<^verbatim>\<open>except Exception\<close> that turns whatever the operation raised into a 500 response.
  The effects the operation had before it raised stay.
\<close>

definition lambda_handler :: "pylib \<Rightarrow> env \<Rightarrow> pydict \<Rightarrow> world \<Rightarrow> response \<times> world" where
  "lambda_handler lib env event w =
     (let http_method = (case map_of event ''httpMethod'' of None \<Rightarrow> PStr [] | Some v \<Rightarrow> v);
          outcome =
            (if http_method = PStr ''POST'' then create_booking lib env event w
             else if http_method = PStr ''GET'' then get_bookings lib env event w
             else (Inr (json_response 405
                          (json_dumps lib (PDict [(''error'', PStr ''Method not allowed'')]))), w))
      in case fst outcome of
           Inr r \<Rightarrow> (r, snd outcome)
         | Inl e \<Rightarrow>
             (json_response 500
                (json_dumps lib (PDict [(''error'', PStr ''Internal server error''),
                                        (''message'', PStr (str_exn lib e))])),
              snd outcome))"

section \<open>Notification Consumer\<close>

text \<open>
  \<^verbatim>\<open>process_notification\<close> of \<^verbatim>\<open>notification_handler.py\<close>. \<open>now\<close> is the clock reading
  \<^verbatim>\<open>datetime.utcnow().isoformat()\<close>. The result is the dictionary
  \<^verbatim>\<open>notification_log\<close>, which the function prints and returns.
\<close>

definition process_notification :: "pylib \<Rightarrow> string \<Rightarrow> pyval \<Rightarrow> exn + pydict" where
  "process_notification lib now message =
     (case dict_get message ''booking_id'' PNone of Inl e \<Rightarrow> Inl e | Inr booking_id \<Rightarrow>
     (case dict_get message ''user_email'' PNone of Inl e \<Rightarrow> Inl e | Inr user_email \<Rightarrow>
     (case dict_get message ''user_name'' PNone of Inl e \<Rightarrow> Inl e | Inr user_name \<Rightarrow>
     (case dict_get message ''event_id'' PNone of Inl e \<Rightarrow> Inl e | Inr event_id \<Rightarrow>
     (case dict_get message ''action'' (PStr ''unknown'') of Inl e \<Rightarrow> Inl e | Inr action \<Rightarrow>
     (case dict_get message ''timestamp'' (PStr now) of Inl e \<Rightarrow> Inl e | Inr timestamp \<Rightarrow>
        Inr [(''type'', PStr ''email_notification''),
             (''action'', action),
             (''recipient'', user_email),
             (''subject'', PStr (''Event Booking Confirmation - '' @ py_str lib event_id)),
             (''message'', PStr (''Hello '' @ py_str lib user_name @ '', your booking ''
                                 @ py_str lib booking_id @ '' has been confirmed!'')),
             (''timestamp'', timestamp)]))))))"

text \<open>The body of the \<^verbatim>\<open>try\<close> in the consumer's loop, for one record.\<close>

definition handle_record :: "pylib \<Rightarrow> string \<Rightarrow> pyval \<Rightarrow> exn + pydict" where
  "handle_record lib now record =
     (case py_getitem record ''body'' of
        Inl e \<Rightarrow> Inl e
      | Inr b \<Rightarrow>
          (case py_json_loads lib b of
             Inl e \<Rightarrow> Inl e
           | Inr message_body \<Rightarrow> process_notification lib now message_body))"

text \<open>
  The loop over the records. The state is the two counters and the notification logs
  emitted so far; \<open>clock i\<close> is the clock reading while record number \<open>i\<close> is processed.
  Every exception of a record is caught and counted.
\<close>

record tally =
  processed_count :: nat
  failed_count :: nat
  emitted :: "pydict list"

fun process_records :: "pylib \<Rightarrow> (nat \<Rightarrow> string) \<Rightarrow> nat \<Rightarrow> pyval list \<Rightarrow> tally \<Rightarrow> tally" where
  "process_records lib clock i [] t = t"
| "process_records lib clock i (record # records) t =
     process_records lib clock (Suc i) records
       (case handle_record lib (clock i) record of
          Inr notification_log \<Rightarrow>
            t\<lparr>processed_count := processed_count t + 1,
              emitted := emitted t @ [notification_log]\<rparr>
        | Inl e \<Rightarrow> t\<lparr>failed_count := failed_count t + 1\<rparr>)"

record batch_response =
  batch_statusCode :: nat
  batch_body :: string

text \<open>
  \<^verbatim>\<open>lambda_handler\<close> of \<^verbatim>\<open>notification_handler.py\<close>. It has no \<^verbatim>\<open>try\<close> around
  \<^verbatim>\<open>event['Records']\<close> and the start of the iteration, so these two can raise.
\<close>

definition notification_lambda_handler ::
  "pylib \<Rightarrow> (nat \<Rightarrow> string) \<Rightarrow> pydict \<Rightarrow> exn + batch_response \<times> pydict list" where
  "notification_lambda_handler lib clock event =
     (case map_of event ''Records'' of
        None \<Rightarrow> Inl (KeyError ''Records'')
      | Some v \<Rightarrow>
          (case py_iter v of
             Inl e \<Rightarrow> Inl e
           | Inr records \<Rightarrow>
               (let t = process_records lib clock 0 records
                          \<lparr>processed_count = 0, failed_count = 0, emitted = []\<rparr>
                in Inr (\<lparr>batch_statusCode = 200,
                         batch_body = json_dumps lib
                           (PDict [(''processed'', PInt (int (processed_count t))),
                                   (''failed'', PInt (int (failed_count t)))])\<rparr>,
                        emitted t))))"

section \<open>Sample data\<close>

text \<open>
  A concrete instance of the library parameters, for evaluating the handlers on sample
  requests: the parser knows the sample bodies below and rejects every other string, the
  serializer writes a value out without escaping its strings.
\<close>

fun render :: "pyval \<Rightarrow> string" where
  "render PNone = ''null''"
| "render (PBool b) = (if b then ''true'' else ''false'')"
| "render (PInt i) = str_int i"
| "render (PFloat x) = ''<float>''"
| "render (PStr s) = CHR 0x22 # s @ [CHR 0x22]"
| "render (PList xs) = ''['' @ concat (map (\<lambda>x. render x @ '','') xs) @ '']''"
| "render (PDict kvs) =
     ''{'' @ concat (map (\<lambda>kv. CHR 0x22 # fst kv @ [CHR 0x22] @ '':'' @ render (snd kv) @ '','') kvs)
     @ ''}''"

definition example_body :: string where
  \<open>example_body =
     ''{"event_id": "event-123", "user_name": "John Doe", "user_email": "john@example.com"}''\<close>

definition example_fields :: pydict where
  "example_fields =
     [(''event_id'', PStr ''event-123''),
      (''user_name'', PStr ''John Doe''),
      (''user_email'', PStr ''john@example.com'')]"

definition incomplete_body :: string where
  \<open>incomplete_body = ''{"event_id": "event-123", "user_name": "John Doe"}''\<close>

definition incomplete_fields :: pydict where
  "incomplete_fields = [(''event_id'', PStr ''event-123''), (''user_name'', PStr ''John Doe'')]"

definition example_notification :: string where
  \<open>example_notification =
     ''{"booking_id": "booking-1", "event_id": "event-123", ''
     @ ''"user_email": "john@example.com", "user_name": "John Doe"}''\<close>

definition example_notification_fields :: pydict where
  "example_notification_fields =
     [(''booking_id'', PStr ''booking-1''),
      (''event_id'', PStr ''event-123''),
      (''user_email'', PStr ''john@example.com''),
      (''user_name'', PStr ''John Doe'')]"

definition example_loads :: "string \<Rightarrow> pyval option" where
  "example_loads s =
     (if s = example_body then Some (PDict example_fields)
      else if s = incomplete_body then Some (PDict incomplete_fields)
      else if s = example_notification then Some (PDict example_notification_fields)
      else None)"

fun example_str_exn :: "exn \<Rightarrow> string" where
  "example_str_exn (ServiceError text) = text"
| "example_str_exn (KeyError k) = CHR 0x27 # k @ [CHR 0x27]"
| "example_str_exn _ = ''error''"

definition example_lib :: pylib where
  "example_lib =
     \<lparr>json_loads = example_loads,
      json_dumps = render,
      json_dumps_DecimalEncoder = render,
      str_exn = example_str_exn,
      str_other = render\<rparr>"

definition example_env :: env where
  "example_env =
     \<lparr>uuid4 = ''0b7c2a4e-5d1f-4c3a-9e8b-6f2d1a0c9b3e'',
      utcnow = ''2024-05-01T12:00:00.000000'',
      put_item_fault = None,
      send_message_fault = None,
      query_fault = None,
      scan_fault = None\<rparr>"

definition example_post :: pydict where
  "example_post = [(''httpMethod'', PStr ''POST''), (''body'', PStr example_body)]"

definition empty_world :: world where
  "empty_world = \<lparr>table = [], queue = []\<rparr>"

text \<open>Three stored bookings: two of event-123, one of event-456.\<close>

definition example_table :: "pydict list" where
  "example_table =
     [[(''event_id'', PStr ''event-123''), (''booking_id'', PStr ''booking-a'')],
      [(''event_id'', PStr ''event-456''), (''booking_id'', PStr ''booking-b'')],
      [(''event_id'', PStr ''event-123''), (''booking_id'', PStr ''booking-c'')]]"

text \<open>The environment of the sample request, with a queue that refuses the message.\<close>

definition failing_queue_env :: env where
  "failing_queue_env = example_env\<lparr>send_message_fault := Some (ServiceError ''queue unavailable'')\<rparr>"

text \<open>Listing requests, and a store that holds the three sample bookings.\<close>

definition filter_request :: pydict where
  "filter_request =
     [(''httpMethod'', PStr ''GET''),
      (''queryStringParameters'', PDict [(''event_id'', PStr ''event-123'')])]"

definition plain_request :: pydict where
  "plain_request = [(''httpMethod'', PStr ''GET''), (''queryStringParameters'', PNone)]"

definition example_world :: world where
  "example_world = \<lparr>table = example_table, queue = []\<rparr>"

definition empty_filter_request :: pydict where
  "empty_filter_request =
     [(''httpMethod'', PStr ''GET''),
      (''queryStringParameters'', PDict [(''event_id'', PStr [])])]"

definition other_param_request :: pydict where
  "other_param_request =
     [(''httpMethod'', PStr ''GET''),
      (''queryStringParameters'', PDict [(''page'', PStr ''1'')])]"

text \<open>The environment of a second invocation, with another random identifier.\<close>

definition second_env :: env where
  "second_env = example_env\<lparr>uuid4 := ''7f3e9c1d-2b4a-4e6f-8a0b-5c7d9e1f3a2b''\<rparr>"

text \<open>A batch of two queue records: the first does not parse, the second does.\<close>

definition example_batch :: pydict where
  "example_batch =
     [(''Records'',
       PList [PDict [(''messageId'', PStr ''1''), (''body'', PStr ''not json'')],
              PDict [(''messageId'', PStr ''2''), (''body'', PStr example_notification)]])]"

definition example_clock :: "nat \<Rightarrow> string" where
  "example_clock i = ''2024-05-01T12:00:0'' @ str_nat i"

section \<open>Properties of the Booking Service\<close>

subsection \<open>Creating a booking\<close>

lemma parse_body_object:
  assumes "map_of event ''body'' = Some (PStr s)" and "json_loads lib s = Some v"
  shows "parse_body lib event = Inr v"
  using assms by (simp add: parse_body_def)

lemma check_required_object_present:
  assumes "map_of kvs ''event_id'' = Some v1"
    and "map_of kvs ''user_name'' = Some v2"
    and "map_of kvs ''user_email'' = Some v3"
  shows "check_required (PDict kvs) required_fields = Inr None"
  using assms by (simp add: required_fields_def)

lemma create_booking_valid:
  assumes "map_of event ''body'' = Some (PStr s)"
    and "json_loads lib s = Some (PDict kvs)"
    and "map_of kvs ''event_id'' = Some v1"
    and "map_of kvs ''user_name'' = Some v2"
    and "map_of kvs ''user_email'' = Some v3"
  shows "create_booking lib env event w = store_and_notify lib env v1 v2 v3 w"
  using assms
  by (simp add: create_booking_def parse_body_object check_required_object_present)

lemma lambda_handler_post:
  assumes "map_of event ''httpMethod'' = Some (PStr ''POST'')"
  shows "lambda_handler lib env event w =
     (case fst (create_booking lib env event w) of
        Inr r \<Rightarrow> (r, snd (create_booking lib env event w))
      | Inl e \<Rightarrow>
          (json_response 500
             (json_dumps lib (PDict [(''error'', PStr ''Internal server error''),
                                     (''message'', PStr (str_exn lib e))])),
           snd (create_booking lib env event w)))"
  using assms by (simp add: lambda_handler_def Let_def)



text \<open>
  C2. A POST request whose body parses as a JSON object that lacks at least one of the
  three keys is answered by \<^verbatim>\<open>create_booking\<close> with status 400; the error names one
  field, the first one missing in the order \<open>event_id\<close>, \<open>user_name\<close>, \<open>user_email\<close>;
  nothing is written to the store and nothing is published.
\<close>

theorem create_booking_missing_field:
  assumes "map_of event ''body'' = Some (PStr s)"
    and "json_loads lib s = Some (PDict kvs)"
    and "map_of kvs ''event_id'' = None \<or> map_of kvs ''user_name'' = None
         \<or> map_of kvs ''user_email'' = None"
  shows "\<exists>field.
     find (\<lambda>f. map_of kvs f = None) [''event_id'', ''user_name'', ''user_email''] = Some field \<and>
     create_booking lib env event w =
       (Inr \<lparr>statusCode = 400,
             headers = [(''Content-Type'', ''application/json''),
                        (''Access-Control-Allow-Origin'', ''*'')],
             body = json_dumps lib
                      (PDict [(''error'', PStr (''Missing required field: '' @ field))])\<rparr>,
        w)"
proof -
  have parsed: "parse_body lib event = Inr (PDict kvs)"
    using assms(1,2) by (rule parse_body_object)
  show ?thesis
    using assms(3)
    by (auto simp add: create_booking_def parsed required_fields_def json_response_def)
qed

text \<open>A body without \<open>user_email\<close>: the error names \<open>user_email\<close>.\<close>

theorem create_booking_missing_field_witness:
  "map_of [(''body'', PStr incomplete_body)] ''body'' = Some (PStr incomplete_body) \<and>
   json_loads example_lib incomplete_body = Some (PDict incomplete_fields) \<and>
   (map_of incomplete_fields ''event_id'' = None \<or> map_of incomplete_fields ''user_name'' = None
     \<or> map_of incomplete_fields ''user_email'' = None) \<and>
   find (\<lambda>f. map_of incomplete_fields f = None) [''event_id'', ''user_name'', ''user_email'']
     = Some ''user_email'' \<and>
   create_booking example_lib example_env [(''body'', PStr incomplete_body)] empty_world =
     (Inr \<lparr>statusCode = 400,
           headers = [(''Content-Type'', ''application/json''),
                      (''Access-Control-Allow-Origin'', ''*'')],
           body = render (PDict [(''error'', PStr ''Missing required field: user_email'')])\<rparr>,
      empty_world)"
proof -
  have h1: "map_of [(''body'', PStr incomplete_body)] ''body'' = Some (PStr incomplete_body)"
    by simp
  have h2: "json_loads example_lib incomplete_body = Some (PDict incomplete_fields)"
    by (simp add: example_lib_def example_loads_def incomplete_body_def example_body_def)
  have h3: "map_of incomplete_fields ''event_id'' = None
            \<or> map_of incomplete_fields ''user_name'' = None
            \<or> map_of incomplete_fields ''user_email'' = None"
    by (simp add: incomplete_fields_def)
  have f: "find (\<lambda>f. map_of incomplete_fields f = None)
             [''event_id'', ''user_name'', ''user_email''] = Some ''user_email''"
    by (simp add: incomplete_fields_def)
  have libs: "json_dumps example_lib = render"
    by (simp add: example_lib_def)
  show ?thesis
    using create_booking_missing_field [OF h1 h2 h3, of example_env empty_world]
    by (simp only: h1 h2 f libs) (use h3 in simp)
qed



lemma table_put_item_member: "item \<in> set (table_put_item item tbl)"
  by (simp add: table_put_item_def)

text \<open>
  C4. A valid creation request whose store write succeeds and whose queue publication
  raises: the booking stays in the store (nothing undoes the write), nothing is added to
  the queue, and \<^verbatim>\<open>lambda_handler\<close> answers with status 500 and a body that carries
  the message of the exception.
\<close>

theorem publish_failure_keeps_booking:
  assumes "map_of event ''httpMethod'' = Some (PStr ''POST'')"
    and "map_of event ''body'' = Some (PStr s)"
    and "json_loads lib s = Some (PDict kvs)"
    and "map_of kvs ''event_id'' = Some (PStr event_id)"
    and "map_of kvs ''user_name'' = Some (PStr user_name)"
    and "map_of kvs ''user_email'' = Some (PStr user_email)"
    and "put_item_fault env = None"
    and "send_message_fault env = Some e"
  shows "lambda_handler lib env event w =
     (\<lparr>statusCode = 500,
       headers = [(''Content-Type'', ''application/json''),
                  (''Access-Control-Allow-Origin'', ''*'')],
       body = json_dumps lib
                (PDict [(''error'', PStr ''Internal server error''),
                        (''message'', PStr (str_exn lib e))])\<rparr>,
      w\<lparr>table := table_put_item
                    [(''event_id'', PStr event_id),
                     (''booking_id'', PStr (''booking-'' @ uuid4 env)),
                     (''user_name'', PStr user_name),
                     (''user_email'', PStr user_email),
                     (''booking_status'', PStr ''confirmed''),
                     (''created_at'', PStr (utcnow env))]
                    (table w)\<rparr>)
   \<and> [(''event_id'', PStr event_id),
       (''booking_id'', PStr (''booking-'' @ uuid4 env)),
       (''user_name'', PStr user_name),
       (''user_email'', PStr user_email),
       (''booking_status'', PStr ''confirmed''),
       (''created_at'', PStr (utcnow env))]
        \<in> set (table (snd (lambda_handler lib env event w)))
   \<and> queue (snd (lambda_handler lib env event w)) = queue w"
proof -
  have "create_booking lib env event w =
          store_and_notify lib env (PStr event_id) (PStr user_name) (PStr user_email) w"
    using assms(2-6) by (rule create_booking_valid)
  then have run: "lambda_handler lib env event w =
     (\<lparr>statusCode = 500,
       headers = [(''Content-Type'', ''application/json''),
                  (''Access-Control-Allow-Origin'', ''*'')],
       body = json_dumps lib
                (PDict [(''error'', PStr ''Internal server error''),
                        (''message'', PStr (str_exn lib e))])\<rparr>,
      w\<lparr>table := table_put_item
                    [(''event_id'', PStr event_id),
                     (''booking_id'', PStr (''booking-'' @ uuid4 env)),
                     (''user_name'', PStr user_name),
                     (''user_email'', PStr user_email),
                     (''booking_status'', PStr ''confirmed''),
                     (''created_at'', PStr (utcnow env))]
                    (table w)\<rparr>)"
    using assms(1,7,8)
    by (simp add: lambda_handler_post store_and_notify_def booking_item_def
        json_response_def Let_def)
  show ?thesis
    unfolding run by (simp add: table_put_item_member)
qed

text \<open>The sample request with a queue that is unavailable.\<close>

theorem publish_failure_keeps_booking_witness:
  "map_of example_post ''httpMethod'' = Some (PStr ''POST'') \<and>
   map_of example_post ''body'' = Some (PStr example_body) \<and>
   json_loads example_lib example_body = Some (PDict example_fields) \<and>
   map_of example_fields ''event_id'' = Some (PStr ''event-123'') \<and>
   map_of example_fields ''user_name'' = Some (PStr ''John Doe'') \<and>
   map_of example_fields ''user_email'' = Some (PStr ''john@example.com'') \<and>
   put_item_fault failing_queue_env = None \<and>
   send_message_fault failing_queue_env = Some (ServiceError ''queue unavailable'') \<and>
   lambda_handler example_lib failing_queue_env example_post empty_world =
     (\<lparr>statusCode = 500,
       headers = [(''Content-Type'', ''application/json''),
                  (''Access-Control-Allow-Origin'', ''*'')],
       body = render (PDict [(''error'', PStr ''Internal server error''),
                             (''message'', PStr ''queue unavailable'')])\<rparr>,
      \<lparr>table = [[(''event_id'', PStr ''event-123''),
                 (''booking_id'', PStr ''booking-0b7c2a4e-5d1f-4c3a-9e8b-6f2d1a0c9b3e''),
                 (''user_name'', PStr ''John Doe''),
                 (''user_email'', PStr ''john@example.com''),
                 (''booking_status'', PStr ''confirmed''),
                 (''created_at'', PStr ''2024-05-01T12:00:00.000000'')]],
       queue = []\<rparr>)"
proof -
  have h1: "map_of example_post ''httpMethod'' = Some (PStr ''POST'')"
    and h2: "map_of example_post ''body'' = Some (PStr example_body)"
    by (simp_all add: example_post_def)
  have h3: "json_loads example_lib example_body = Some (PDict example_fields)"
    by (simp add: example_lib_def example_loads_def)
  have h4: "map_of example_fields ''event_id'' = Some (PStr ''event-123'')"
    and h5: "map_of example_fields ''user_name'' = Some (PStr ''John Doe'')"
    and h6: "map_of example_fields ''user_email'' = Some (PStr ''john@example.com'')"
    by (simp_all add: example_fields_def)
  have h7: "put_item_fault failing_queue_env = None"
    and h8: "send_message_fault failing_queue_env = Some (ServiceError ''queue unavailable'')"
    by (simp_all add: failing_queue_env_def example_env_def)
  have uid: "uuid4 failing_queue_env = ''0b7c2a4e-5d1f-4c3a-9e8b-6f2d1a0c9b3e''"
    and now: "utcnow failing_queue_env = ''2024-05-01T12:00:00.000000''"
    by (simp_all add: failing_queue_env_def example_env_def)
  have libs: "json_dumps example_lib = render" "str_exn example_lib = example_str_exn"
    by (simp_all add: example_lib_def)
  show ?thesis
    using publish_failure_keeps_booking [OF h1 h2 h3 h4 h5 h6 h7 h8, of empty_world]
    by (simp only: h1 h2 h3 h4 h5 h6 h7 h8 uid now libs)
       (simp add: empty_world_def table_put_item_def)
qed

subsection \<open>Listing bookings\<close>

lemma query_params_dict:
  assumes "map_of event ''queryStringParameters'' = Some (PDict qp)"
  shows "dict_get (query_params event) ''event_id'' PNone =
           Inr (case map_of qp ''event_id'' of None \<Rightarrow> PNone | Some v \<Rightarrow> v)"
  using assms by (cases qp) (simp_all add: query_params_def)

lemma query_params_absent:
  assumes "map_of event ''queryStringParameters'' = None
           \<or> map_of event ''queryStringParameters'' = Some PNone"
  shows "dict_get (query_params event) ''event_id'' PNone = Inr PNone"
  using assms by (auto simp add: query_params_def)

lemma get_bookings_scan:
  assumes "dict_get (query_params event) ''event_id'' PNone = Inr v"
    and "\<not> truthy v"
    and "scan_fault env = None"
  shows "get_bookings lib env event w =
     (Inr \<lparr>statusCode = 200,
           headers = [(''Content-Type'', ''application/json''),
                      (''Access-Control-Allow-Origin'', ''*'')],
           body = json_dumps_DecimalEncoder lib
                    (PDict [(''message'',
                             PStr (''Found '' @ str_nat (length (table w))
                                   @ '' total booking(s)'')),
                            (''bookings'', PList (map PDict (table w)))])\<rparr>,
      w)"
  using assms by (simp add: get_bookings_def table_scan_def json_response_def Let_def)

text \<open>
  C5. A GET request with a non-empty \<open>event_id\<close> query parameter is answered with
  status 200, the bookings of that partition key and no others, and a message with their
  number; a GET request without the parameter is answered with status 200, all bookings
  of the store and a message with the total number. Nothing requires the list to be
  non-empty. The query or the scan is taken to return normally.
\<close>

theorem get_bookings_filter_or_all:
  "(map_of event ''queryStringParameters'' = Some (PDict qp)
      \<and> map_of qp ''event_id'' = Some (PStr event_id) \<and> event_id \<noteq> []
      \<and> query_fault env = None
    \<longrightarrow> get_bookings lib env event w =
         (Inr \<lparr>statusCode = 200,
               headers = [(''Content-Type'', ''application/json''),
                          (''Access-Control-Allow-Origin'', ''*'')],
               body = json_dumps_DecimalEncoder lib
                        (PDict [(''message'',
                                 PStr (''Found ''
                                       @ str_nat (length [it \<leftarrow> table w.
                                                    map_of it ''event_id'' = Some (PStr event_id)])
                                       @ '' booking(s) for event '' @ event_id)),
                                (''bookings'',
                                 PList (map PDict [it \<leftarrow> table w.
                                          map_of it ''event_id'' = Some (PStr event_id)]))])\<rparr>,
          w))
   \<and> ((map_of event ''queryStringParameters'' = None
        \<or> map_of event ''queryStringParameters'' = Some PNone
        \<or> map_of event ''queryStringParameters'' = Some (PDict qp)
           \<and> map_of qp ''event_id'' = None)
       \<and> scan_fault env = None
    \<longrightarrow> get_bookings lib env event w =
         (Inr \<lparr>statusCode = 200,
               headers = [(''Content-Type'', ''application/json''),
                          (''Access-Control-Allow-Origin'', ''*'')],
               body = json_dumps_DecimalEncoder lib
                        (PDict [(''message'',
                                 PStr (''Found '' @ str_nat (length (table w))
                                       @ '' total booking(s)'')),
                                (''bookings'', PList (map PDict (table w)))])\<rparr>,
          w))"
proof (intro conjI impI)
  assume a: "map_of event ''queryStringParameters'' = Some (PDict qp)
      \<and> map_of qp ''event_id'' = Some (PStr event_id) \<and> event_id \<noteq> []
      \<and> query_fault env = None"
  then have "dict_get (query_params event) ''event_id'' PNone = Inr (PStr event_id)"
    by (simp add: query_params_dict)
  with a show "get_bookings lib env event w =
         (Inr \<lparr>statusCode = 200,
               headers = [(''Content-Type'', ''application/json''),
                          (''Access-Control-Allow-Origin'', ''*'')],
               body = json_dumps_DecimalEncoder lib
                        (PDict [(''message'',
                                 PStr (''Found ''
                                       @ str_nat (length [it \<leftarrow> table w.
                                                    map_of it ''event_id'' = Some (PStr event_id)])
                                       @ '' booking(s) for event '' @ event_id)),
                                (''bookings'',
                                 PList (map PDict [it \<leftarrow> table w.
                                          map_of it ''event_id'' = Some (PStr event_id)]))])\<rparr>,
          w)"
    by (simp add: get_bookings_def table_query_def json_response_def Let_def)
next
  assume b: "(map_of event ''queryStringParameters'' = None
        \<or> map_of event ''queryStringParameters'' = Some PNone
        \<or> map_of event ''queryStringParameters'' = Some (PDict qp)
           \<and> map_of qp ''event_id'' = None)
       \<and> scan_fault env = None"
  then have "dict_get (query_params event) ''event_id'' PNone = Inr PNone"
    by (auto simp add: query_params_dict query_params_absent)
  moreover have "\<not> truthy PNone" by simp
  ultimately show "get_bookings lib env event w =
         (Inr \<lparr>statusCode = 200,
               headers = [(''Content-Type'', ''application/json''),
                          (''Access-Control-Allow-Origin'', ''*'')],
               body = json_dumps_DecimalEncoder lib
                        (PDict [(''message'',
                                 PStr (''Found '' @ str_nat (length (table w))
                                       @ '' total booking(s)'')),
                                (''bookings'', PList (map PDict (table w)))])\<rparr>,
          w)"
    using b by (simp add: get_bookings_scan)
qed


text \<open>
  Two bookings of event-123 and one of event-456 in the store: the filter returns the two,
  the request without parameters all three.
\<close>

theorem get_bookings_filter_or_all_witness:
  "map_of filter_request ''queryStringParameters'' = Some (PDict [(''event_id'', PStr ''event-123'')]) \<and>
   map_of [(''event_id'', PStr ''event-123'')] ''event_id'' = Some (PStr ''event-123'') \<and>
   ''event-123'' \<noteq> [] \<and>
   query_fault example_env = None \<and>
   get_bookings example_lib example_env filter_request example_world =
     (Inr \<lparr>statusCode = 200,
           headers = [(''Content-Type'', ''application/json''),
                      (''Access-Control-Allow-Origin'', ''*'')],
           body = render
                    (PDict [(''message'', PStr ''Found 2 booking(s) for event event-123''),
                            (''bookings'',
                             PList [PDict [(''event_id'', PStr ''event-123''),
                                           (''booking_id'', PStr ''booking-a'')],
                                    PDict [(''event_id'', PStr ''event-123''),
                                           (''booking_id'', PStr ''booking-c'')]])])\<rparr>,
      example_world) \<and>
   map_of plain_request ''queryStringParameters'' = Some PNone \<and>
   scan_fault example_env = None \<and>
   get_bookings example_lib example_env plain_request example_world =
     (Inr \<lparr>statusCode = 200,
           headers = [(''Content-Type'', ''application/json''),
                      (''Access-Control-Allow-Origin'', ''*'')],
           body = render
                    (PDict [(''message'', PStr ''Found 3 total booking(s)''),
                            (''bookings'', PList (map PDict example_table))])\<rparr>,
      example_world)"
proof -
  have f1: "map_of filter_request ''queryStringParameters''
              = Some (PDict [(''event_id'', PStr ''event-123'')])"
    by (simp add: filter_request_def)
  have f2: "map_of [(''event_id'', PStr ''event-123'')] ''event_id'' = Some (PStr ''event-123'')"
    and f3: "''event-123'' \<noteq> []"
    by simp_all
  have f4: "query_fault example_env = None" and s2: "scan_fault example_env = None"
    by (simp_all add: example_env_def)
  have s1: "map_of plain_request ''queryStringParameters'' = Some PNone"
    by (simp add: plain_request_def)
  have libs: "json_dumps_DecimalEncoder example_lib = render"
    by (simp add: example_lib_def)
  have tbl: "table example_world = example_table"
    by (simp add: example_world_def)
  have sel: "[it \<leftarrow> example_table. map_of it ''event_id'' = Some (PStr ''event-123'')] =
               [[(''event_id'', PStr ''event-123''), (''booking_id'', PStr ''booking-a'')],
                [(''event_id'', PStr ''event-123''), (''booking_id'', PStr ''booking-c'')]]"
    by (simp add: example_table_def)
  have len: "length example_table = 3"
    by (simp add: example_table_def)
  from get_bookings_filter_or_all
         [of filter_request "[(''event_id'', PStr ''event-123'')]" "''event-123''"
             example_env example_lib example_world]
  have part1: "get_bookings example_lib example_env filter_request example_world =
     (Inr \<lparr>statusCode = 200,
           headers = [(''Content-Type'', ''application/json''),
                      (''Access-Control-Allow-Origin'', ''*'')],
           body = render
                    (PDict [(''message'', PStr ''Found 2 booking(s) for event event-123''),
                            (''bookings'',
                             PList [PDict [(''event_id'', PStr ''event-123''),
                                           (''booking_id'', PStr ''booking-a'')],
                                    PDict [(''event_id'', PStr ''event-123''),
                                           (''booking_id'', PStr ''booking-c'')]])])\<rparr>,
      example_world)"
    using f1 f4 by (simp add: libs tbl sel str_nat.simps digit_char_def)
  from get_bookings_filter_or_all [of plain_request "[]" "[]" example_env example_lib example_world]
  have part2: "get_bookings example_lib example_env plain_request example_world =
     (Inr \<lparr>statusCode = 200,
           headers = [(''Content-Type'', ''application/json''),
                      (''Access-Control-Allow-Origin'', ''*'')],
           body = render
                    (PDict [(''message'', PStr ''Found 3 total booking(s)''),
                            (''bookings'', PList (map PDict example_table))])\<rparr>,
      example_world)"
    using s1 s2 by (simp add: libs tbl len str_nat.simps digit_char_def)
  show ?thesis
    using f1 f2 f3 f4 s1 s2 part1 part2 by simp
qed

text \<open>
  C10. A GET request whose \<open>event_id\<close> parameter is the empty string gets the answer
  of a request without the parameter: the filter is tested for truth, the empty string is
  false, so the store is scanned and the message reports the total; the empty partition
  key is never queried.
\<close>

theorem empty_event_id_is_absent:
  assumes "map_of event ''queryStringParameters'' = Some (PDict qp)"
    and "map_of qp ''event_id'' = Some (PStr [])"
    and "map_of event' ''queryStringParameters'' = Some (PDict qp')"
    and "map_of qp' ''event_id'' = None"
  shows "get_bookings lib env event w = get_bookings lib env event' w
    \<and> (scan_fault env = None \<longrightarrow>
         get_bookings lib env event w =
           (Inr \<lparr>statusCode = 200,
                 headers = [(''Content-Type'', ''application/json''),
                            (''Access-Control-Allow-Origin'', ''*'')],
                 body = json_dumps_DecimalEncoder lib
                          (PDict [(''message'',
                                   PStr (''Found '' @ str_nat (length (table w))
                                         @ '' total booking(s)'')),
                                  (''bookings'', PList (map PDict (table w)))])\<rparr>,
            w))"
proof -
  have e: "dict_get (query_params event) ''event_id'' PNone = Inr (PStr [])"
    using assms(1,2) by (simp add: query_params_dict)
  have e': "dict_get (query_params event') ''event_id'' PNone = Inr PNone"
    using assms(3,4) by (simp add: query_params_dict)
  have same: "get_bookings lib env event w = get_bookings lib env event' w"
    by (simp add: get_bookings_def e e')
  have "\<not> truthy (PStr [])" by simp
  with e have "scan_fault env = None \<longrightarrow>
         get_bookings lib env event w =
           (Inr \<lparr>statusCode = 200,
                 headers = [(''Content-Type'', ''application/json''),
                            (''Access-Control-Allow-Origin'', ''*'')],
                 body = json_dumps_DecimalEncoder lib
                          (PDict [(''message'',
                                   PStr (''Found '' @ str_nat (length (table w))
                                         @ '' total booking(s)'')),
                                  (''bookings'', PList (map PDict (table w)))])\<rparr>,
            w)"
    by (simp add: get_bookings_scan)
  with same show ?thesis by simp
qed

text \<open>The request \<^verbatim>\<open>?event_id=\<close> against a request with another parameter only.\<close>

theorem empty_event_id_is_absent_witness:
  "map_of empty_filter_request ''queryStringParameters'' = Some (PDict [(''event_id'', PStr [])]) \<and>
   map_of [(''event_id'', PStr [])] ''event_id'' = Some (PStr []) \<and>
   map_of other_param_request ''queryStringParameters'' = Some (PDict [(''page'', PStr ''1'')]) \<and>
   map_of [(''page'', PStr ''1'')] ''event_id'' = None \<and>
   scan_fault example_env = None \<and>
   get_bookings example_lib example_env empty_filter_request example_world =
     get_bookings example_lib example_env other_param_request example_world \<and>
   get_bookings example_lib example_env empty_filter_request example_world =
     (Inr \<lparr>statusCode = 200,
           headers = [(''Content-Type'', ''application/json''),
                      (''Access-Control-Allow-Origin'', ''*'')],
           body = render
                    (PDict [(''message'', PStr ''Found 3 total booking(s)''),
                            (''bookings'', PList (map PDict example_table))])\<rparr>,
      example_world)"
proof -
  have h1: "map_of empty_filter_request ''queryStringParameters''
              = Some (PDict [(''event_id'', PStr [])])"
    by (simp add: empty_filter_request_def)
  have h2: "map_of [(''event_id'', PStr [])] ''event_id'' = Some (PStr [])"
    by simp
  have h3: "map_of other_param_request ''queryStringParameters''
              = Some (PDict [(''page'', PStr ''1'')])"
    by (simp add: other_param_request_def)
  have h4: "map_of [(''page'', PStr ''1'')] ''event_id'' = None"
    by simp
  have s: "scan_fault example_env = None"
    by (simp add: example_env_def)
  have libs: "json_dumps_DecimalEncoder example_lib = render"
    by (simp add: example_lib_def)
  have tbl: "table example_world = example_table"
    by (simp add: example_world_def)
  have len: "length example_table = 3"
    by (simp add: example_table_def)
  note run = empty_event_id_is_absent [OF h1 h2 h3 h4, of example_lib example_env example_world]
  have c1: "get_bookings example_lib example_env empty_filter_request example_world =
     get_bookings example_lib example_env other_param_request example_world"
    using run by (rule conjunct1)
  have c2: "get_bookings example_lib example_env empty_filter_request example_world =
     (Inr \<lparr>statusCode = 200,
           headers = [(''Content-Type'', ''application/json''),
                      (''Access-Control-Allow-Origin'', ''*'')],
           body = render
                    (PDict [(''message'', PStr ''Found 3 total booking(s)''),
                            (''bookings'', PList (map PDict example_table))])\<rparr>,
      example_world)"
    using run [THEN conjunct2, THEN mp, OF s]
    by (simp add: libs tbl len str_nat.simps digit_char_def)
  show ?thesis
    by (intro conjI h1 h2 h3 h4 s c1 c2)
qed

subsection \<open>A request without content\<close>

text \<open>
  A remark beside C3: when the event has the key \<open>body\<close> with the value \<open>None\<close>,
  \<^verbatim>\<open>json.loads\<close> raises \<^verbatim>\<open>TypeError\<close>, which the first \<^verbatim>\<open>try\<close> of
  \<^verbatim>\<open>create_booking\<close> does not catch; \<^verbatim>\<open>lambda_handler\<close> turns it into status 500.
\<close>

lemma create_booking_null_body:
  assumes "map_of event ''body'' = Some PNone"
  shows "create_booking lib env event w = (Inl TypeError, w)"
  using assms by (simp add: create_booking_def parse_body_def)

lemma lambda_handler_null_body:
  assumes "map_of event ''httpMethod'' = Some (PStr ''POST'')"
    and "map_of event ''body'' = Some PNone"
  shows "lambda_handler lib env event w =
     (json_response 500
        (json_dumps lib (PDict [(''error'', PStr ''Internal server error''),
                                (''message'', PStr (str_exn lib TypeError))])),
      w)"
  using assms by (simp add: lambda_handler_post create_booking_null_body)

subsection \<open>The response envelope\<close>

lemma store_and_notify_shape:
  assumes "fst (store_and_notify lib env v1 v2 v3 w) = Inr r"
  shows "\<exists>obj. r = json_response 201 (json_dumps_DecimalEncoder lib (PDict obj))"
  using assms
  by (auto simp add: store_and_notify_def Let_def split: option.splits)

lemma create_booking_shape:
  assumes "fst (create_booking lib env event w) = Inr r"
  shows "\<exists>obj. r = json_response 201 (json_dumps_DecimalEncoder lib (PDict obj))
             \<or> r = json_response 400 (json_dumps lib (PDict obj))"
  using assms
  by (auto simp add: create_booking_def split: sum.splits option.splits if_splits
      dest: store_and_notify_shape)

lemma get_bookings_shape:
  assumes "fst (get_bookings lib env event w) = Inr r"
  shows "\<exists>obj. r = json_response 200 (json_dumps_DecimalEncoder lib (PDict obj))"
  using assms
  by (auto simp add: get_bookings_def Let_def split: sum.splits option.splits if_splits)

lemma lambda_handler_shape:
  "\<exists>code obj. code \<in> {200, 201, 400, 405, 500} \<and>
     (fst (lambda_handler lib env event w) = json_response code (json_dumps lib (PDict obj))
      \<or> fst (lambda_handler lib env event w)
          = json_response code (json_dumps_DecimalEncoder lib (PDict obj)))"
proof -
  define http_method where
    "http_method = (case map_of event ''httpMethod'' of None \<Rightarrow> PStr [] | Some v \<Rightarrow> v)"
  consider (post) "http_method = PStr ''POST''"
    | (get) "http_method \<noteq> PStr ''POST''" "http_method = PStr ''GET''"
    | (other) "http_method \<noteq> PStr ''POST''" "http_method \<noteq> PStr ''GET''"
    by blast
  then show ?thesis
  proof cases
    case post
    show ?thesis
    proof (cases "fst (create_booking lib env event w)")
      case (Inl e)
      with post have "fst (lambda_handler lib env event w) =
          json_response 500 (json_dumps lib (PDict [(''error'', PStr ''Internal server error''),
                                                    (''message'', PStr (str_exn lib e))]))"
        by (simp add: lambda_handler_def Let_def http_method_def)
      then show ?thesis by blast
    next
      case (Inr r)
      with post have "fst (lambda_handler lib env event w) = r"
        by (simp add: lambda_handler_def Let_def http_method_def)
      with create_booking_shape [OF Inr] show ?thesis by auto
    qed
  next
    case get
    show ?thesis
    proof (cases "fst (get_bookings lib env event w)")
      case (Inl e)
      with get have "fst (lambda_handler lib env event w) =
          json_response 500 (json_dumps lib (PDict [(''error'', PStr ''Internal server error''),
                                                    (''message'', PStr (str_exn lib e))]))"
        by (simp add: lambda_handler_def Let_def http_method_def)
      then show ?thesis by blast
    next
      case (Inr r)
      with get have "fst (lambda_handler lib env event w) = r"
        by (simp add: lambda_handler_def Let_def http_method_def)
      with get_bookings_shape [OF Inr] show ?thesis by auto
    qed
  next
    case other
    then have "fst (lambda_handler lib env event w) =
          json_response 405 (json_dumps lib (PDict [(''error'', PStr ''Method not allowed'')]))"
      by (simp add: lambda_handler_def Let_def http_method_def)
    then show ?thesis by blast
  qed
qed

text \<open>
  C8. Whatever the event, the store, the queue and the environment are, the response of
  \<^verbatim>\<open>lambda_handler\<close> has the header \<open>Content-Type: application/json\<close> and the header
  \<open>Access-Control-Allow-Origin: *\<close>, its body is the serialization of a JSON object, and
  its status is one of 200, 201, 400, 405 and 500: every return statement of the handler
  and of the two operations is covered, so is the \<^verbatim>\<open>except\<close> branch.
\<close>

theorem lambda_handler_envelope:
  "map_of (headers (fst (lambda_handler lib env event w))) ''Content-Type''
     = Some ''application/json''
   \<and> map_of (headers (fst (lambda_handler lib env event w))) ''Access-Control-Allow-Origin''
     = Some ''*''
   \<and> (\<exists>obj. body (fst (lambda_handler lib env event w)) = json_dumps lib (PDict obj)
            \<or> body (fst (lambda_handler lib env event w))
                = json_dumps_DecimalEncoder lib (PDict obj))
   \<and> statusCode (fst (lambda_handler lib env event w)) \<in> {200, 201, 400, 405, 500}"
proof -
  obtain code obj where code: "code \<in> {200, 201, 400, 405, 500}"
    and r: "fst (lambda_handler lib env event w) = json_response code (json_dumps lib (PDict obj))
      \<or> fst (lambda_handler lib env event w)
          = json_response code (json_dumps_DecimalEncoder lib (PDict obj))"
    using lambda_handler_shape [of lib env event w] by blast
  from r show ?thesis
  proof
    assume "fst (lambda_handler lib env event w) = json_response code (json_dumps lib (PDict obj))"
    with code show ?thesis by (auto simp add: json_response_def)
  next
    assume "fst (lambda_handler lib env event w)
          = json_response code (json_dumps_DecimalEncoder lib (PDict obj))"
    with code show ?thesis by (auto simp add: json_response_def)
  qed
qed

subsection \<open>Creating twice\<close>

lemma create_booking_created:
  assumes "create_booking lib env event w = (Inr r, w')" and "statusCode r = 201"
  shows "\<exists>bdy v1 v2 v3.
           parse_body lib event = Inr bdy \<and>
           py_getitem bdy ''event_id'' = Inr v1 \<and>
           py_getitem bdy ''user_name'' = Inr v2 \<and>
           py_getitem bdy ''user_email'' = Inr v3 \<and>
           store_and_notify lib env v1 v2 v3 w = (Inr r, w')"
  using assms
  by (auto simp add: create_booking_def json_response_def
      split: sum.splits option.splits if_splits)

lemma store_and_notify_created:
  assumes "store_and_notify lib env v1 v2 v3 w = (Inr r, w')"
  shows "r = json_response 201
             (json_dumps_DecimalEncoder lib
                (PDict [(''message'', PStr ''Booking created successfully''),
                        (''booking'', PDict (booking_item env v1 v2 v3))]))
    \<and> table w' = table_put_item (booking_item env v1 v2 v3) (table w)
    \<and> queue w' = queue w @ [json_dumps lib (PDict (notification_message env v1 v2 v3))]"
  using assms
  by (auto simp add: store_and_notify_def Let_def split: option.splits)

lemma table_put_item_keeps:
  assumes "item \<in> set tbl" and "\<not> same_key item new"
  shows "item \<in> set (table_put_item new tbl)"
  using assms by (simp add: table_put_item_def)

text \<open>
  C9. Creation is not idempotent. Two successful calls of \<^verbatim>\<open>create_booking\<close> on the
  same request, the second on the state the first left, with two different random
  identifiers: the two returned bookings have different \<open>booking_id\<close> values, both
  records are in the store afterwards, and two messages were published. No existence
  check and no deduplication stands between the request and the write.
\<close>

theorem create_twice_two_bookings:
  assumes "create_booking lib env1 event w0 = (Inr r1, w1)" and "statusCode r1 = 201"
    and "create_booking lib env2 event w1 = (Inr r2, w2)" and "statusCode r2 = 201"
    and "uuid4 env1 \<noteq> uuid4 env2"
  shows "\<exists>v1 v2 v3.
     body r1 = json_dumps_DecimalEncoder lib
                 (PDict [(''message'', PStr ''Booking created successfully''),
                         (''booking'', PDict (booking_item env1 v1 v2 v3))]) \<and>
     body r2 = json_dumps_DecimalEncoder lib
                 (PDict [(''message'', PStr ''Booking created successfully''),
                         (''booking'', PDict (booking_item env2 v1 v2 v3))]) \<and>
     map_of (booking_item env1 v1 v2 v3) ''booking_id'' = Some (PStr (''booking-'' @ uuid4 env1)) \<and>
     map_of (booking_item env2 v1 v2 v3) ''booking_id'' = Some (PStr (''booking-'' @ uuid4 env2)) \<and>
     map_of (booking_item env1 v1 v2 v3) ''booking_id''
       \<noteq> map_of (booking_item env2 v1 v2 v3) ''booking_id'' \<and>
     booking_item env1 v1 v2 v3 \<in> set (table w2) \<and>
     booking_item env2 v1 v2 v3 \<in> set (table w2) \<and>
     length (queue w2) = length (queue w0) + 2"
proof -
  obtain bdy v1 v2 v3 where p: "parse_body lib event = Inr bdy"
    and g: "py_getitem bdy ''event_id'' = Inr v1" "py_getitem bdy ''user_name'' = Inr v2"
      "py_getitem bdy ''user_email'' = Inr v3"
    and first: "store_and_notify lib env1 v1 v2 v3 w0 = (Inr r1, w1)"
    using create_booking_created [OF assms(1,2)] by blast
  obtain bdy' u1 u2 u3 where p': "parse_body lib event = Inr bdy'"
    and g': "py_getitem bdy' ''event_id'' = Inr u1" "py_getitem bdy' ''user_name'' = Inr u2"
      "py_getitem bdy' ''user_email'' = Inr u3"
    and second': "store_and_notify lib env2 u1 u2 u3 w1 = (Inr r2, w2)"
    using create_booking_created [OF assms(3,4)] by blast
  from p p' g g' have "u1 = v1" "u2 = v2" "u3 = v3" by simp_all
  with second' have second: "store_and_notify lib env2 v1 v2 v3 w1 = (Inr r2, w2)" by simp
  note a = store_and_notify_created [OF first]
  note b = store_and_notify_created [OF second]
  have ids: "map_of (booking_item env1 v1 v2 v3) ''booking_id'' = Some (PStr (''booking-'' @ uuid4 env1))"
    "map_of (booking_item env2 v1 v2 v3) ''booking_id'' = Some (PStr (''booking-'' @ uuid4 env2))"
    by (simp_all add: booking_item_def)
  have differ: "map_of (booking_item env1 v1 v2 v3) ''booking_id''
       \<noteq> map_of (booking_item env2 v1 v2 v3) ''booking_id''"
    using assms(5) by (simp add: ids)
  then have "\<not> same_key (booking_item env1 v1 v2 v3) (booking_item env2 v1 v2 v3)"
    by (simp add: same_key_def)
  moreover have "booking_item env1 v1 v2 v3 \<in> set (table w1)"
    using a by (simp add: table_put_item_member)
  ultimately have one: "booking_item env1 v1 v2 v3 \<in> set (table w2)"
    using b by (simp add: table_put_item_keeps)
  have two: "booking_item env2 v1 v2 v3 \<in> set (table w2)"
    using b by (simp add: table_put_item_member)
  have q: "length (queue w2) = length (queue w0) + 2"
    using a b by simp
  have b1: "body r1 = json_dumps_DecimalEncoder lib
                 (PDict [(''message'', PStr ''Booking created successfully''),
                         (''booking'', PDict (booking_item env1 v1 v2 v3))])"
    using a by (simp add: json_response_def)
  have b2: "body r2 = json_dumps_DecimalEncoder lib
                 (PDict [(''message'', PStr ''Booking created successfully''),
                         (''booking'', PDict (booking_item env2 v1 v2 v3))])"
    using b by (simp add: json_response_def)
  show ?thesis
    using b1 b2 ids differ one two q by blast
qed

text \<open>The sample request, sent twice to an empty store.\<close>

theorem create_twice_two_bookings_witness:
  "\<exists>r1 w1 r2 w2.
     create_booking example_lib example_env example_post empty_world = (Inr r1, w1) \<and>
     statusCode r1 = 201 \<and>
     create_booking example_lib second_env example_post w1 = (Inr r2, w2) \<and>
     statusCode r2 = 201 \<and>
     uuid4 example_env \<noteq> uuid4 second_env \<and>
     body r1 \<noteq> body r2 \<and>
     length (table w2) = 2 \<and>
     length (queue w2) = 2"
proof -
  define e n m where "e = PStr ''event-123''" and "n = PStr ''John Doe''"
    and "m = PStr ''john@example.com''"
  define x1 where "x1 = store_and_notify example_lib example_env e n m empty_world"
  define x2 where "x2 = store_and_notify example_lib second_env e n m (snd x1)"
  have h2: "map_of example_post ''body'' = Some (PStr example_body)"
    by (simp add: example_post_def)
  have h3: "json_loads example_lib example_body = Some (PDict example_fields)"
    by (simp add: example_lib_def example_loads_def)
  have h4: "map_of example_fields ''event_id'' = Some e"
    and h5: "map_of example_fields ''user_name'' = Some n"
    and h6: "map_of example_fields ''user_email'' = Some m"
    by (simp_all add: example_fields_def e_def n_def m_def)
  have run: "create_booking example_lib env example_post w
               = store_and_notify example_lib env e n m w" for env w
    using h2 h3 h4 h5 h6 by (rule create_booking_valid)
  have ok1: "fst x1 = Inr (projr (fst x1))" and s1: "statusCode (projr (fst x1)) = 201"
    by (simp_all add: x1_def store_and_notify_def Let_def example_env_def json_response_def)
  have ok2: "fst x2 = Inr (projr (fst x2))" and s2: "statusCode (projr (fst x2)) = 201"
    by (simp_all add: x2_def store_and_notify_def Let_def second_env_def example_env_def
        json_response_def)
  have c1: "create_booking example_lib example_env example_post empty_world
              = (Inr (projr (fst x1)), snd x1)"
    using ok1 by (simp add: run x1_def [symmetric] prod_eq_iff)
  have c2: "create_booking example_lib second_env example_post (snd x1)
              = (Inr (projr (fst x2)), snd x2)"
    using ok2 by (simp add: run x2_def [symmetric] prod_eq_iff)
  have d: "uuid4 example_env \<noteq> uuid4 second_env"
    by (simp add: second_env_def example_env_def)
  obtain v1 v2 v3 where
    b1: "body (projr (fst x1)) = json_dumps_DecimalEncoder example_lib
           (PDict [(''message'', PStr ''Booking created successfully''),
                   (''booking'', PDict (booking_item example_env v1 v2 v3))])"
    and b2: "body (projr (fst x2)) = json_dumps_DecimalEncoder example_lib
           (PDict [(''message'', PStr ''Booking created successfully''),
                   (''booking'', PDict (booking_item second_env v1 v2 v3))])"
    and q: "length (queue (snd x2)) = length (queue empty_world) + 2"
    using create_twice_two_bookings [OF c1 s1 c2 s2 d] by blast
  have bodies: "body (projr (fst x1)) \<noteq> body (projr (fst x2))"
    unfolding b1 b2
    by (simp add: example_lib_def booking_item_def second_env_def example_env_def)
  have t: "length (table (snd x2)) = 2"
    by (simp add: x2_def x1_def store_and_notify_def Let_def second_env_def example_env_def
        empty_world_def table_put_item_def same_key_def booking_item_def)
  have q2: "length (queue (snd x2)) = 2"
    using q by (simp add: empty_world_def)
  show ?thesis
    using c1 s1 c2 s2 d bodies t q2 by blast
qed

section \<open>Properties of the Notification Consumer\<close>

text \<open>Whether a record raises does not depend on the clock.\<close>

lemma process_notification_raises:
  "isl (process_notification lib now message) = (\<forall>kvs. message \<noteq> PDict kvs)"
  by (cases message) (simp_all add: process_notification_def)

lemma handle_record_clock:
  "isl (handle_record lib now record) = isl (handle_record lib now' record)"
  by (simp add: handle_record_def process_notification_raises split: sum.splits)

lemma process_records_tally:
  "process_records lib clock i records t =
     \<lparr>processed_count =
        processed_count t + length [r \<leftarrow> records. \<not> isl (handle_record lib now r)],
      failed_count = failed_count t + length [r \<leftarrow> records. isl (handle_record lib now r)],
      emitted =
        emitted t @
        concat (map (\<lambda>jr. case handle_record lib (clock (fst jr)) (snd jr) of
                             Inl e \<Rightarrow> [] | Inr l \<Rightarrow> [l])
                  (enumerate i records))\<rparr>"
proof (induction records arbitrary: i t)
  case Nil
  show ?case by simp
next
  case (Cons r rs)
  show ?case
  proof (cases "handle_record lib (clock i) r")
    case (Inl e)
    then have "isl (handle_record lib now r)"
      using handle_record_clock [of lib now r "clock i"] by simp
    with Inl show ?thesis by (simp add: Cons.IH)
  next
    case (Inr l)
    then have "\<not> isl (handle_record lib now r)"
      using handle_record_clock [of lib now r "clock i"] by simp
    with Inr show ?thesis by (simp add: Cons.IH)
  qed
qed

text \<open>
  C6. For a batch of queue records the consumer's \<^verbatim>\<open>lambda_handler\<close> returns status
  200 with the body \<open>{processed, failed}\<close>, where \<open>processed\<close> is the number of records
  processed without an exception, \<open>failed\<close> the number of records that raised one, and
  the two add up to the size of the batch. A record that raises is counted and the loop
  goes on: the notifications emitted are those of all the records that do not raise,
  wherever they stand in the batch. No exception of a record leaves the handler.
\<close>

theorem batch_is_counted:
  assumes "map_of event ''Records'' = Some (PList records)"
  shows "notification_lambda_handler lib clock event =
     Inr (\<lparr>batch_statusCode = 200,
           batch_body = json_dumps lib
             (PDict [(''processed'',
                      PInt (int (length [r \<leftarrow> records. \<not> isl (handle_record lib now r)]))),
                     (''failed'',
                      PInt (int (length [r \<leftarrow> records. isl (handle_record lib now r)])))])\<rparr>,
          concat (map (\<lambda>jr. case handle_record lib (clock (fst jr)) (snd jr) of
                               Inl e \<Rightarrow> [] | Inr l \<Rightarrow> [l])
                    (enumerate 0 records)))
   \<and> length [r \<leftarrow> records. \<not> isl (handle_record lib now r)]
       + length [r \<leftarrow> records. isl (handle_record lib now r)] = length records"
proof -
  have "length [r \<leftarrow> records. \<not> isl (handle_record lib now r)]
       + length [r \<leftarrow> records. isl (handle_record lib now r)] = length records"
    using sum_length_filter_compl [of "\<lambda>r. \<not> isl (handle_record lib now r)" records] by simp
  then show ?thesis
    using assms
    by (simp add: notification_lambda_handler_def Let_def process_records_tally [where now = now])
qed

text \<open>A record that does not parse, followed by a well-formed one.\<close>

theorem batch_is_counted_witness:
  "map_of example_batch ''Records'' =
     Some (PList [PDict [(''messageId'', PStr ''1''), (''body'', PStr ''not json'')],
                  PDict [(''messageId'', PStr ''2''), (''body'', PStr example_notification)]]) \<and>
   notification_lambda_handler example_lib example_clock example_batch =
     Inr (\<lparr>batch_statusCode = 200,
           batch_body = render (PDict [(''processed'', PInt 1), (''failed'', PInt 1)])\<rparr>,
          [[(''type'', PStr ''email_notification''),
            (''action'', PStr ''unknown''),
            (''recipient'', PStr ''john@example.com''),
            (''subject'', PStr ''Event Booking Confirmation - event-123''),
            (''message'', PStr ''Hello John Doe, your booking booking-1 has been confirmed!''),
            (''timestamp'', PStr ''2024-05-01T12:00:01'')]])"
proof -
  have h: "map_of example_batch ''Records'' =
     Some (PList [PDict [(''messageId'', PStr ''1''), (''body'', PStr ''not json'')],
                  PDict [(''messageId'', PStr ''2''), (''body'', PStr example_notification)]])"
    by (simp add: example_batch_def)
  have bad: "json_loads example_lib ''not json'' = None"
    by (simp add: example_lib_def example_loads_def example_body_def incomplete_body_def
        example_notification_def)
  have good: "json_loads example_lib example_notification = Some (PDict example_notification_fields)"
    by (simp add: example_lib_def example_loads_def example_body_def incomplete_body_def
        example_notification_def)
  have r1: "handle_record example_lib now
              (PDict [(''messageId'', PStr ''1''), (''body'', PStr ''not json'')])
            = Inl JSONDecodeError" for now
    by (simp add: handle_record_def bad)
  have r2: "handle_record example_lib now
              (PDict [(''messageId'', PStr ''2''), (''body'', PStr example_notification)])
            = Inr [(''type'', PStr ''email_notification''),
                   (''action'', PStr ''unknown''),
                   (''recipient'', PStr ''john@example.com''),
                   (''subject'', PStr ''Event Booking Confirmation - event-123''),
                   (''message'',
                    PStr ''Hello John Doe, your booking booking-1 has been confirmed!''),
                   (''timestamp'', PStr now)]" for now
    by (simp add: handle_record_def good process_notification_def example_notification_fields_def)
  have c: "example_clock (Suc 0) = ''2024-05-01T12:00:01''"
    by (simp add: example_clock_def str_nat.simps digit_char_def)
  have libs: "json_dumps example_lib = render"
    by (simp add: example_lib_def)
  have run: "notification_lambda_handler example_lib example_clock example_batch =
     Inr (\<lparr>batch_statusCode = 200,
           batch_body = render (PDict [(''processed'', PInt 1), (''failed'', PInt 1)])\<rparr>,
          [[(''type'', PStr ''email_notification''),
            (''action'', PStr ''unknown''),
            (''recipient'', PStr ''john@example.com''),
            (''subject'', PStr ''Event Booking Confirmation - event-123''),
            (''message'', PStr ''Hello John Doe, your booking booking-1 has been confirmed!''),
            (''timestamp'', PStr ''2024-05-01T12:00:01'')]])"
    using batch_is_counted [OF h, of example_lib example_clock "[]", THEN conjunct1]
    by (simp add: r1 r2 c libs enumerate_eq_zip)
  show ?thesis
    by (intro conjI h run)
qed

text \<open>
  C7. For a queue record whose body parses as a JSON object, \<^verbatim>\<open>process_notification\<close>
  builds a notification record whose action is the action of the message, or \<open>unknown\<close>
  when the message has none; whose timestamp is the timestamp of the message, or the
  current time when the message has none; whose subject holds the \<open>event_id\<close> of the
  message and whose text holds its \<open>user_name\<close> and its \<open>booking_id\<close>.
\<close>

theorem notification_record_fields:
  assumes "map_of rec ''body'' = Some (PStr s)" and "json_loads lib s = Some (PDict m)"
  shows "handle_record lib now (PDict rec) = process_notification lib now (PDict m)
   \<and> process_notification lib now (PDict m) =
     Inr [(''type'', PStr ''email_notification''),
          (''action'', case map_of m ''action'' of None \<Rightarrow> PStr ''unknown'' | Some a \<Rightarrow> a),
          (''recipient'', case map_of m ''user_email'' of None \<Rightarrow> PNone | Some v \<Rightarrow> v),
          (''subject'',
           PStr (''Event Booking Confirmation - ''
                 @ py_str lib (case map_of m ''event_id'' of None \<Rightarrow> PNone | Some v \<Rightarrow> v))),
          (''message'',
           PStr (''Hello ''
                 @ py_str lib (case map_of m ''user_name'' of None \<Rightarrow> PNone | Some v \<Rightarrow> v)
                 @ '', your booking ''
                 @ py_str lib (case map_of m ''booking_id'' of None \<Rightarrow> PNone | Some v \<Rightarrow> v)
                 @ '' has been confirmed!'')),
          (''timestamp'', case map_of m ''timestamp'' of None \<Rightarrow> PStr now | Some t \<Rightarrow> t)]"
  using assms by (simp add: handle_record_def process_notification_def)

text \<open>A message without action and without timestamp.\<close>

theorem notification_record_fields_witness:
  "map_of [(''messageId'', PStr ''2''), (''body'', PStr example_notification)] ''body''
     = Some (PStr example_notification) \<and>
   json_loads example_lib example_notification = Some (PDict example_notification_fields) \<and>
   process_notification example_lib ''2024-05-01T12:00:01'' (PDict example_notification_fields) =
     Inr [(''type'', PStr ''email_notification''),
          (''action'', PStr ''unknown''),
          (''recipient'', PStr ''john@example.com''),
          (''subject'', PStr ''Event Booking Confirmation - event-123''),
          (''message'', PStr ''Hello John Doe, your booking booking-1 has been confirmed!''),
          (''timestamp'', PStr ''2024-05-01T12:00:01'')]"
proof -
  have h1: "map_of [(''messageId'', PStr ''2''), (''body'', PStr example_notification)] ''body''
     = Some (PStr example_notification)"
    by simp
  have h2: "json_loads example_lib example_notification = Some (PDict example_notification_fields)"
    by (simp add: example_lib_def example_loads_def example_body_def incomplete_body_def
        example_notification_def)
  have run: "process_notification example_lib ''2024-05-01T12:00:01''
               (PDict example_notification_fields) =
     Inr [(''type'', PStr ''email_notification''),
          (''action'', PStr ''unknown''),
          (''recipient'', PStr ''john@example.com''),
          (''subject'', PStr ''Event Booking Confirmation - event-123''),
          (''message'', PStr ''Hello John Doe, your booking booking-1 has been confirmed!''),
          (''timestamp'', PStr ''2024-05-01T12:00:01'')]"
    using notification_record_fields [OF h1 h2, of "''2024-05-01T12:00:01''", THEN conjunct2]
    by (simp add: example_notification_fields_def)
  show ?thesis
    by (intro conjI h1 h2 run)
qed

end
